theory Spec2Isabelle
  imports Complex_Main "HOL-Library.Word"
begin

section \<open>The inference service: data model\<close>

text \<open>
  The development follows \<^verbatim>\<open>src/inference-service/server.py\<close>. Calls into third-party
  libraries (librosa's decoder, resampler and mel spectrogram, noisereduce, numpy's float
  conversion, TensorFlow, the operating system's temporary files) are parameters of
  the model, collected in the record \<open>env\<close>; each of them may raise, so each returns
  a sum with the exception on the left. The numpy and librosa operations whose result
  the properties below depend on (\<^verbatim>\<open>np.pad\<close>, slicing, \<^verbatim>\<open>np.argmax\<close>, \<^verbatim>\<open>np.max\<close>,
  \<^verbatim>\<open>librosa.power_to_db\<close>) are defined after their documentation.
  The code of the repository itself is translated function by function.
\<close>

subsection \<open>Exceptions\<close>

text \<open>
  \<open>HTTPException\<close> carries the status code and the detail string. The other
  constructors stand for the exceptions of library calls (\<open>LibraryError\<close>), of the
  operating system (\<open>OSError\<close>) and of numpy and list indexing. All of them derive
  from Python's \<^verbatim>\<open>Exception\<close>, HTTPException included.
\<close>

datatype exn =
    HTTPException nat string
  | LibraryError string
  | OSError string
  | ValueError string
  | IndexError string

subsection \<open>Samples, byte strings and tensors\<close>

type_synonym bytes = "8 word list"

text \<open>
  A one-dimensional sample array is a list. Padding and slicing never compute with the
  samples, so \<open>pad_or_trim\<close> is stated for any sample type with a zero; the pipeline
  uses it at type \<open>real\<close>. A multi-dimensional array is its shape and its elements.
\<close>

record tensor =
  shape :: "nat list"
  elems :: "real list"

subsection \<open>Configuration\<close>

definition MAX_FILE_SIZE :: nat where
  "MAX_FILE_SIZE = 50 * 1024 * 1024"

definition class_names :: "string list" where
  "class_names =
     [''bobfly1'', ''ducfly'', ''brratt1'', ''barant1'', ''squcuc1'',
      ''greant1'', ''bubwre1'', ''oliwoo1'', ''fepowl'', ''butwoo1'']"

section \<open>Padding and trimming\<close>

text \<open>
  \<^verbatim>\<open>np.pad(a, (0, k))\<close> appends \<open>k\<close> zeros (constant mode, value 0).
  \<^verbatim>\<open>a[:n]\<close> keeps the first \<open>n\<close> elements when \<open>n\<close> is not negative, and drops
  the last \<open>-n\<close> elements when it is.
\<close>

definition np_pad_right :: "'a::zero list \<Rightarrow> nat \<Rightarrow> 'a list" where
  "np_pad_right a k = a @ replicate k 0"

definition slice_upto :: "'a list \<Rightarrow> int \<Rightarrow> 'a list" where
  "slice_upto a n =
     (if 0 \<le> n then take (nat n) a else take (length a - nat (- n)) a)"

definition pad_or_trim :: "'a::zero list \<Rightarrow> int \<Rightarrow> int \<Rightarrow> 'a list" where
  "pad_or_trim audio_array sampling_rate max_len =
     (let desired_len = max_len * sampling_rate in
      if int (length audio_array) < desired_len
      then np_pad_right audio_array (nat (desired_len - int (length audio_array)))
      else slice_upto audio_array desired_len)"

section \<open>Library and operating-system calls\<close>

text \<open>
  The parameters of the model. \<open>librosa_load\<close> decodes the content of a file to
  samples and the native sample rate; \<open>tmp_stem\<close> is the directory and random name
  that \<^verbatim>\<open>NamedTemporaryFile\<close> picks (or its failure), to which the suffix is
  appended; \<open>tmp_write\<close> is \<open>None\<close> when writing the content and closing the
  file succeed and the exception otherwise; \<open>str_of_exn\<close> is Python's \<^verbatim>\<open>str(e)\<close>; \<open>elapsed_seconds\<close>
  is the difference of the two clock readings.
\<close>

record env =
  librosa_load :: "bytes \<Rightarrow> exn + (real list \<times> int)"
  librosa_resample :: "real list \<Rightarrow> int \<Rightarrow> int \<Rightarrow> exn + real list"
  reduce_noise :: "real list \<Rightarrow> int \<Rightarrow> exn + real list"
  melspectrogram :: "real list \<Rightarrow> int \<Rightarrow> nat \<Rightarrow> exn + tensor"
  float32 :: "real \<Rightarrow> real"
  image_resize :: "tensor \<Rightarrow> nat option list \<Rightarrow> exn + tensor"
  tmp_stem :: "exn + string"
  tmp_write :: "bytes \<Rightarrow> exn option"
  str_of_exn :: "exn \<Rightarrow> string"
  elapsed_seconds :: real

text \<open>
  A loaded Keras model: its declared input shape (the batch dimension is \<open>None\<close>)
  and its forward pass, which returns one row of scores per batch element.
\<close>

record keras_model =
  input_shape :: "nat option list"
  predict :: "tensor \<Rightarrow> exn + real list list"

section \<open>The preprocessing pipeline\<close>

text \<open>
  \<^verbatim>\<open>np.max\<close> works on the flattened array and raises ValueError on an empty one.
\<close>

definition np_max :: "real list \<Rightarrow> exn + real" where
  "np_max a =
     (case a of
        [] \<Rightarrow> Inl (ValueError ''zero-size array to reduction operation maximum which has no identity'')
      | x # xs \<Rightarrow> Inr (fold max xs x))"

text \<open>
  \<^verbatim>\<open>librosa.power_to_db(S, ref=np.max)\<close> with its defaults \<^verbatim>\<open>amin=1e-10\<close> and
  \<^verbatim>\<open>top_db=80.0\<close>, after librosa's documentation: the reference is \<^verbatim>\<open>np.max(S)\<close>;
  every element \<open>x\<close> becomes \<open>10 * log10(max(amin, x)) - 10 * log10(max(amin, ref))\<close>;
  the result is then clipped from below at its own maximum minus \<open>top_db\<close>. The shape
  is kept. Samples are real numbers here, so rounding, infinities and NaN are not in
  the model; the conversion to single precision is the parameter \<open>float32\<close>.
\<close>

definition amin_default :: real where
  "amin_default = 1 / 10 ^ 10"

definition top_db_default :: real where
  "top_db_default = 80"

definition decibel :: "real \<Rightarrow> real \<Rightarrow> real" where
  "decibel ref_value x =
     10 * log 10 (max amin_default x) - 10 * log 10 (max amin_default ref_value)"

definition power_to_db :: "tensor \<Rightarrow> exn + tensor" where
  "power_to_db S =
     (case np_max (elems S) of
        Inl e \<Rightarrow> Inl e
      | Inr ref_value \<Rightarrow>
          (let log_spec = map (decibel ref_value) (elems S)
           in case np_max log_spec of
                Inl e \<Rightarrow> Inl e
              | Inr log_spec_max \<Rightarrow>
                  Inr (S\<lparr>elems := map (\<lambda>v. max v (log_spec_max - top_db_default)) log_spec\<rparr>)))"

definition denoise_audio :: "env \<Rightarrow> real list \<Rightarrow> int \<Rightarrow> exn + real list" where
  "denoise_audio env audio_array sampling_rate = reduce_noise env audio_array sampling_rate"

definition astype_float32 :: "env \<Rightarrow> tensor \<Rightarrow> tensor" where
  "astype_float32 env t = t\<lparr>elems := map (float32 env) (elems t)\<rparr>"

definition new_axis :: "tensor \<Rightarrow> tensor" where
  "new_axis t = t\<lparr>shape := shape t @ [1]\<rparr>"

definition to_melspectrogram :: "env \<Rightarrow> real list \<Rightarrow> int \<Rightarrow> nat \<Rightarrow> exn + tensor" where
  "to_melspectrogram env audio_array sampling_rate n_mels =
     (case melspectrogram env audio_array sampling_rate n_mels of
        Inl e \<Rightarrow> Inl e
      | Inr mel_spec \<Rightarrow>
          (case power_to_db mel_spec of
             Inl e \<Rightarrow> Inl e
           | Inr mel_spec_db \<Rightarrow> Inr (new_axis (astype_float32 env mel_spec_db))))"

text \<open>Lines 63 and 64 of the source: resample only when the rates differ.\<close>

definition resample_if_needed :: "env \<Rightarrow> real list \<Rightarrow> int \<Rightarrow> int \<Rightarrow> exn + real list" where
  "resample_if_needed env audio_array original_sampling_rate target_sampling_rate =
     (if original_sampling_rate \<noteq> target_sampling_rate
      then librosa_resample env audio_array original_sampling_rate target_sampling_rate
      else Inr audio_array)"

text \<open>
  The value of \<^verbatim>\<open>audio_array\<close> after line 68 of \<^verbatim>\<open>preprocess_audio_data\<close>:
  resampled, denoised, padded or trimmed. The source has no function of its own for
  these three steps; \<open>preprocess_audio_data\<close> below hands this array to
  \<open>to_melspectrogram\<close>.
\<close>

definition normalized_audio :: "env \<Rightarrow> real list \<Rightarrow> int \<Rightarrow> int \<Rightarrow> int \<Rightarrow> exn + real list" where
  "normalized_audio env audio_array original_sampling_rate target_sampling_rate max_len =
     (case resample_if_needed env audio_array original_sampling_rate target_sampling_rate of
        Inl e \<Rightarrow> Inl e
      | Inr resampled \<Rightarrow>
          (case denoise_audio env resampled target_sampling_rate of
             Inl e \<Rightarrow> Inl e
           | Inr denoised \<Rightarrow> Inr (pad_or_trim denoised target_sampling_rate max_len)))"

definition preprocess_audio_data :: "env \<Rightarrow> real list \<Rightarrow> int \<Rightarrow> int \<Rightarrow> int \<Rightarrow> exn + tensor" where
  "preprocess_audio_data env audio_array original_sampling_rate target_sampling_rate max_len =
     (case normalized_audio env audio_array original_sampling_rate target_sampling_rate max_len of
        Inl e \<Rightarrow> Inl e
      | Inr normalized \<Rightarrow> to_melspectrogram env normalized target_sampling_rate 40)"

section \<open>Inference\<close>

text \<open>
  \<^verbatim>\<open>np.argmax\<close> and \<^verbatim>\<open>np.max\<close> work on the flattened array and raise ValueError on
  an empty one; \<^verbatim>\<open>np.argmax\<close> returns the first index of the maximum. The scan keeps
  the index and value of the best element so far and replaces them only by a strictly
  larger one.
\<close>

fun argmax_scan :: "real list \<Rightarrow> nat \<Rightarrow> nat \<Rightarrow> real \<Rightarrow> nat" where
  "argmax_scan [] i best_i best = best_i"
| "argmax_scan (x # xs) i best_i best =
     (if best < x then argmax_scan xs (Suc i) i x else argmax_scan xs (Suc i) best_i best)"

definition np_argmax :: "real list \<Rightarrow> exn + nat" where
  "np_argmax a =
     (case a of
        [] \<Rightarrow> Inl (ValueError ''attempt to get argmax of an empty sequence'')
      | x # xs \<Rightarrow> Inr (argmax_scan xs 1 0 x))"

text \<open>Indexing a Python list with a non-negative index.\<close>

definition list_get :: "'a list \<Rightarrow> nat \<Rightarrow> exn + 'a" where
  "list_get xs i = (if i < length xs then Inr (xs ! i) else Inl (IndexError ''list index out of range''))"

definition expand_dims0 :: "tensor \<Rightarrow> tensor" where
  "expand_dims0 t = t\<lparr>shape := 1 # shape t\<rparr>"

text \<open>\<^verbatim>\<open>s[1:3]\<close> on a tuple.\<close>

definition slice_1_3 :: "'a list \<Rightarrow> 'a list" where
  "slice_1_3 s = take 2 (drop 1 s)"

definition resize_if_needed :: "env \<Rightarrow> tensor \<Rightarrow> keras_model \<Rightarrow> exn + tensor" where
  "resize_if_needed env mel_spec_db model =
     (if slice_1_3 (input_shape model) \<noteq> map Some (slice_1_3 (shape mel_spec_db))
      then image_resize env mel_spec_db (slice_1_3 (input_shape model))
      else Inr mel_spec_db)"

definition inference_from_melspec ::
  "env \<Rightarrow> tensor \<Rightarrow> keras_model \<Rightarrow> string list \<Rightarrow> exn + (string \<times> real)" where
  "inference_from_melspec env mel_spec_db model names =
     (case resize_if_needed env mel_spec_db model of
        Inl e \<Rightarrow> Inl e
      | Inr mel_spec_resized \<Rightarrow>
          (case predict model (expand_dims0 mel_spec_resized) of
             Inl e \<Rightarrow> Inl e
           | Inr pred \<Rightarrow>
               (case np_argmax (concat pred) of
                  Inl e \<Rightarrow> Inl e
                | Inr pred_label \<Rightarrow>
                    (case np_max (concat pred) of
                       Inl e \<Rightarrow> Inl e
                     | Inr confidence \<Rightarrow>
                         (case list_get names pred_label of
                            Inl e \<Rightarrow> Inl e
                          | Inr name \<Rightarrow> Inr (name, confidence))))))"

section \<open>Temporary files and the request handler\<close>

text \<open>
  The world a request runs in: the files on disk (path to content) and the trace of
  the steps taken so far. The trace records the handler's reading of the body, the
  temporary file's creation, writing and removal, the call of the decoder, the call of
  \<open>preprocess_audio_data\<close> (the only place where resampling, denoising and the
  spectrogram happen) and the call of \<open>inference_from_melspec\<close>.
\<close>

datatype event =
    ReadBody
  | TempCreate string
  | TempWrite string
  | Decode string
  | Preprocess
  | Unlink string
  | Inference

record world =
  files :: "string \<Rightarrow> bytes option"
  trace :: "event list"

definition log_event :: "event \<Rightarrow> world \<Rightarrow> world" where
  "log_event ev w = w\<lparr>trace := trace w @ [ev]\<rparr>"

text \<open>The body of the \<^verbatim>\<open>try\<close> of \<^verbatim>\<open>_process_sync\<close> (lines 139 to 148).\<close>

definition load_and_preprocess :: "env \<Rightarrow> string \<Rightarrow> world \<Rightarrow> (exn + tensor) \<times> world" where
  "load_and_preprocess env temp_path w =
     (let w1 = log_event (Decode temp_path) w in
      case (case files w temp_path of
              None \<Rightarrow> Inl (OSError ''No such file or directory'')
            | Some content \<Rightarrow> librosa_load env content) of
        Inl e \<Rightarrow> (Inl e, w1)
      | Inr (audio_array, original_sampling_rate) \<Rightarrow>
          (preprocess_audio_data env audio_array original_sampling_rate 16000 5,
           log_event Preprocess w1))"

text \<open>
  The \<^verbatim>\<open>finally\<close> of \<^verbatim>\<open>_process_sync\<close> (lines 151 and 152). Removing a file
  that the process has just created itself is taken to succeed.
\<close>

definition remove_if_exists :: "string \<Rightarrow> world \<Rightarrow> world" where
  "remove_if_exists temp_path w =
     (if files w temp_path \<noteq> None
      then log_event (Unlink temp_path) (w\<lparr>files := (files w)(temp_path := None)\<rparr>)
      else w)"

text \<open>
  \<^verbatim>\<open>_process_sync\<close>. The \<^verbatim>\<open>with\<close> block creates the file (\<^verbatim>\<open>delete=False\<close>, so
  leaving the block closes the file and keeps it) and writes the content; an exception
  there leaves the function before the \<^verbatim>\<open>try\<close> is entered. The \<^verbatim>\<open>finally\<close> runs
  after the \<^verbatim>\<open>try\<close> body whether it returned or raised.
\<close>

definition process_sync :: "env \<Rightarrow> bytes \<Rightarrow> world \<Rightarrow> (exn + tensor) \<times> world" where
  "process_sync env file_content w =
     (case tmp_stem env of
        Inl e \<Rightarrow> (Inl e, w)
      | Inr stem \<Rightarrow>
          (let temp_path = stem @ ''.mp3'';
               w1 = log_event (TempCreate temp_path) (w\<lparr>files := (files w)(temp_path \<mapsto> [])\<rparr>)
           in case tmp_write env file_content of
                Some e \<Rightarrow> (Inl e, w1)
              | None \<Rightarrow>
                  (let w2 = log_event (TempWrite temp_path)
                              (w1\<lparr>files := (files w1)(temp_path \<mapsto> file_content)\<rparr>);
                       rw = load_and_preprocess env temp_path w2
                   in (fst rw, remove_if_exists temp_path (snd rw)))))"

text \<open>
  \<^verbatim>\<open>process_audio_file\<close> hands \<^verbatim>\<open>_process_sync\<close> to the executor and awaits it; the
  model runs it in place.
\<close>

definition process_audio_file :: "env \<Rightarrow> bytes \<Rightarrow> string \<Rightarrow> world \<Rightarrow> (exn + tensor) \<times> world" where
  "process_audio_file env file_content fname w = process_sync env file_content w"

subsection \<open>The filename check\<close>

text \<open>
  A filename is a byte string. \<^verbatim>\<open>str.lower\<close> is modelled on ASCII letters and leaves
  every other byte alone; none of the characters of the three suffixes is the lower
  case of a character outside ASCII, so the suffix test does not depend on more.
\<close>

definition lower_char :: "char \<Rightarrow> char" where
  "lower_char c =
     (let n = (of_char c :: nat) in if 65 \<le> n \<and> n \<le> 90 then char_of (n + 32) else c)"

definition lower :: "string \<Rightarrow> string" where
  "lower s = map lower_char s"

definition endswith :: "string \<Rightarrow> string \<Rightarrow> bool" where
  "endswith s suffix =
     (length suffix \<le> length s \<and> drop (length s - length suffix) s = suffix)"

definition allowed_extension :: "string \<Rightarrow> bool" where
  "allowed_extension fname =
     (endswith (lower fname) ''.mp3'' \<or> endswith (lower fname) ''.wav''
      \<or> endswith (lower fname) ''.m4a'')"

subsection \<open>POST /predict\<close>

text \<open>
  The uploaded file is its filename (a string: the multipart part that makes the
  upload a file carries one) and its content, which \<^verbatim>\<open>file.read()\<close> returns.
\<close>

record upload_file =
  filename :: string
  body :: bytes

record prediction_response =
  ebird_code :: string
  confidence :: real
  processing_time :: real

text \<open>The body of the \<^verbatim>\<open>try\<close> of \<^verbatim>\<open>predict_audio\<close> (lines 175 to 200).\<close>

definition predict_try ::
  "env \<Rightarrow> keras_model \<Rightarrow> upload_file \<Rightarrow> world \<Rightarrow> (exn + prediction_response) \<times> world" where
  "predict_try env model file w =
     (let file_content = body file;
          w1 = log_event ReadBody w
      in if MAX_FILE_SIZE < length file_content
         then (Inl (HTTPException 413 ''File too large. Maximum size is 50MB.''), w1)
         else
           (let rw = process_audio_file env file_content (filename file) w1 in
            case fst rw of
              Inl e \<Rightarrow> (Inl e, snd rw)
            | Inr mel_spec_db \<Rightarrow>
                (case inference_from_melspec env mel_spec_db model class_names of
                   Inl e \<Rightarrow> (Inl e, log_event Inference (snd rw))
                 | Inr (predicted_ebird_code, conf) \<Rightarrow>
                     (Inr \<lparr>ebird_code = predicted_ebird_code, confidence = conf,
                           processing_time = elapsed_seconds env\<rparr>,
                      log_event Inference (snd rw)))))"

text \<open>
  \<^verbatim>\<open>predict_audio\<close>. The two checks before the \<^verbatim>\<open>try\<close> raise their HTTPException
  directly. The \<^verbatim>\<open>except Exception\<close> clause catches every exception raised inside
  the \<^verbatim>\<open>try\<close>, HTTPException included, and raises a 500 in its place.
\<close>

definition predict_audio ::
  "env \<Rightarrow> keras_model option \<Rightarrow> upload_file \<Rightarrow> world \<Rightarrow> (exn + prediction_response) \<times> world" where
  "predict_audio env model file w =
     (if \<not> allowed_extension (filename file)
      then (Inl (HTTPException 400 ''Only audio files (.mp3, .wav, .m4a) are allowed''), w)
      else
        (case model of
           None \<Rightarrow>
             (Inl (HTTPException 500 ''Model not loaded. Please check server configuration.''), w)
         | Some m \<Rightarrow>
             (let rw = predict_try env m file w in
              case fst rw of
                Inl e \<Rightarrow>
                  (Inl (HTTPException 500 (''Error processing audio file: '' @ str_of_exn env e)),
                   snd rw)
              | Inr response \<Rightarrow> (Inr response, snd rw))))"

text \<open>
  The status code of the HTTP response: 200 for a returned value, the code of an
  HTTPException, and 500 for any other exception that leaves the handler.
\<close>

definition status_code :: "exn + prediction_response \<Rightarrow> nat" where
  "status_code r =
     (case r of
        Inr response \<Rightarrow> 200
      | Inl (HTTPException code detail) \<Rightarrow> code
      | Inl other \<Rightarrow> 500)"

section \<open>Fixtures for concrete evaluations\<close>

text \<open>
  An environment in which every library call returns: the decoder yields three samples
  at 16 kHz, resampling and denoising return their input, the power spectrogram is
  two by two with the values 10, 1, 1, 10, and the cast to single precision changes
  nothing. \<open>full_disk_env\<close> differs in one point: writing
  the temporary file raises. \<open>fixture_model\<close> scores the second class highest.
\<close>

definition fixture_env :: env where
  "fixture_env =
     \<lparr>librosa_load = (\<lambda>content. Inr ([1 / 2, - 1 / 2, 1 / 4], 16000)),
      librosa_resample = (\<lambda>a orig_sr target_sr. Inr a),
      reduce_noise = (\<lambda>a sr. Inr a),
      melspectrogram = (\<lambda>a sr n. Inr \<lparr>shape = [2, 2], elems = [10, 1, 1, 10]\<rparr>),
      float32 = (\<lambda>x. x),
      image_resize = (\<lambda>t size. Inr t),
      tmp_stem = Inr ''/tmp/tmpk3x9'',
      tmp_write = (\<lambda>content. None),
      str_of_exn = (\<lambda>e. ''error''),
      elapsed_seconds = 1\<rparr>"

definition full_disk_env :: env where
  "full_disk_env =
     fixture_env\<lparr>tmp_write := (\<lambda>content. Some (OSError ''No space left on device''))\<rparr>"

definition fixture_model :: keras_model where
  "fixture_model =
     \<lparr>input_shape = [None, Some 40, Some 157, Some 1],
      predict = (\<lambda>t. Inr [[1 / 10, 7 / 10, 0, 0, 0, 1 / 10, 0, 0, 1 / 10, 0]])\<rparr>"

definition empty_world :: world where
  "empty_world = \<lparr>files = (\<lambda>path. None), trace = []\<rparr>"

section \<open>Properties of padding and trimming\<close>

lemma pad_or_trim_pad:
  assumes "int (length a) < max_len * sr"
  shows "pad_or_trim a sr max_len = a @ replicate (nat (max_len * sr) - length a) 0"
proof -
  have "nat (max_len * sr - int (length a)) = nat (max_len * sr) - length a"
    using assms by linarith
  then show ?thesis
    using assms by (simp add: pad_or_trim_def np_pad_right_def)
qed

lemma pad_or_trim_trim:
  assumes "0 \<le> max_len * sr" and "max_len * sr \<le> int (length a)"
  shows "pad_or_trim a sr max_len = take (nat (max_len * sr)) a"
  using assms by (simp add: pad_or_trim_def slice_upto_def)

lemma pad_or_trim_length:
  assumes "0 \<le> max_len * sr"
  shows "length (pad_or_trim a sr max_len) = nat (max_len * sr)"
proof (cases "int (length a) < max_len * sr")
  case True
  then have "length a \<le> nat (max_len * sr)" by linarith
  with True show ?thesis by (simp add: pad_or_trim_pad)
next
  case False
  then have "nat (max_len * sr) \<le> length a" by linarith
  with False assms show ?thesis by (simp add: pad_or_trim_trim)
qed

lemma pad_or_trim_empty:
  "0 \<le> max_len * sr \<Longrightarrow> pad_or_trim [] sr max_len = replicate (nat (max_len * sr)) 0"
  by (cases "0 < max_len * sr") (simp_all add: pad_or_trim_def np_pad_right_def slice_upto_def)

text \<open>
  Claim C3. When \<open>pad_or_trim\<close> pads (the input is shorter than
  \<open>desired_len = max_len * sampling_rate\<close>), the output is the input followed by zeros
  only: its first \<open>len(input)\<close> samples are the input and every sample after them is
  zero. When it truncates (the input has at least \<open>desired_len\<close> samples), the output is
  exactly the first \<open>desired_len\<close> samples of the input. The second part speaks of a
  number of samples, so it is stated for \<open>desired_len \<ge> 0\<close>; the pipeline calls
  \<open>pad_or_trim\<close> with 16000 and 5.
\<close>

theorem pad_or_trim_pads_end_trims_tail:
  "(int (length a) < max_len * sr \<longrightarrow>
      pad_or_trim a sr max_len = a @ replicate (nat (max_len * sr) - length a) 0
      \<and> take (length a) (pad_or_trim a sr max_len) = a
      \<and> set (drop (length a) (pad_or_trim a sr max_len)) = {0})
   \<and> (0 \<le> max_len * sr \<and> max_len * sr \<le> int (length a) \<longrightarrow>
      pad_or_trim a sr max_len = take (nat (max_len * sr)) a)"
proof (intro conjI impI)
  assume less: "int (length a) < max_len * sr"
  then have pos: "0 < nat (max_len * sr) - length a" by linarith
  show eq: "pad_or_trim a sr max_len = a @ replicate (nat (max_len * sr) - length a) 0"
    using less by (rule pad_or_trim_pad)
  show "take (length a) (pad_or_trim a sr max_len) = a"
    by (simp add: eq)
  show "set (drop (length a) (pad_or_trim a sr max_len)) = {0}"
    using pos by (simp add: eq)
next
  assume "0 \<le> max_len * sr \<and> max_len * sr \<le> int (length a)"
  then show "pad_or_trim a sr max_len = take (nat (max_len * sr)) a"
    by (simp add: pad_or_trim_trim)
qed

theorem pad_or_trim_pads_end_trims_tail_witness:
  "pad_or_trim [3, 4 :: int] 2 2 = [3, 4, 0, 0]
   \<and> pad_or_trim [3, 4, 5, 6, 7 :: int] 2 2 = [3, 4, 5, 6]"
  using pad_or_trim_pads_end_trims_tail [of "[3, 4 :: int]" 2 2]
    pad_or_trim_pads_end_trims_tail [of "[3, 4, 5, 6, 7 :: int]" 2 2]
  by (simp add: numeral_eq_Suc)

section \<open>The normalization step\<close>

text \<open>
  Claim C1. For every input waveform and every sample rate, the normalization step
  (resample when the rate is not 16000, denoise, then \<open>pad_or_trim\<close> with target rate
  16000 and \<open>max_len\<close> 5) produces an array of exactly \<open>16000 * 5 = 80000\<close> samples,
  whatever the length of the array the two library calls hand on. The step has no
  failure of its own: it returns as soon as the resampler and the denoiser return.
  The theorem does not need the input to be non-empty.
\<close>

theorem normalized_audio_length:
  assumes "resample_if_needed env audio_array sr 16000 = Inr resampled"
      and "denoise_audio env resampled 16000 = Inr denoised"
  shows "normalized_audio env audio_array sr 16000 5 = Inr (pad_or_trim denoised 16000 5)
         \<and> length (pad_or_trim denoised 16000 5) = 80000"
proof
  show "normalized_audio env audio_array sr 16000 5 = Inr (pad_or_trim denoised 16000 5)"
    using assms by (simp add: normalized_audio_def)
  have "length (pad_or_trim denoised 16000 5) = nat (5 * 16000)"
    by (rule pad_or_trim_length) simp
  then show "length (pad_or_trim denoised 16000 5) = 80000" by simp
qed

theorem normalized_audio_length_witness:
  "\<exists>out. normalized_audio fixture_env [1 / 2, - 1 / 2, 1 / 4] 44100 16000 5 = Inr out
     \<and> length out = 80000"
  using normalized_audio_length [of fixture_env "[1 / 2, - 1 / 2, 1 / 4]" 44100
      "[1 / 2, - 1 / 2, 1 / 4]" "[1 / 2, - 1 / 2, 1 / 4]"]
  by (simp add: resample_if_needed_def denoise_audio_def fixture_env_def)

text \<open>
  The step raises exactly when one of its two library calls raises, and with that
  call's exception; \<open>pad_or_trim\<close> itself is total, and maps an empty array to
  zeros (lemma \<open>pad_or_trim_empty\<close>).
\<close>

lemma normalized_audio_raises_iff:
  "normalized_audio env audio_array sr target max_len = Inl e \<longleftrightarrow>
     (resample_if_needed env audio_array sr target = Inl e
      \<or> (\<exists>resampled. resample_if_needed env audio_array sr target = Inr resampled
            \<and> denoise_audio env resampled target = Inl e))"
  by (auto simp: normalized_audio_def split: sum.splits)

section \<open>The filename check and the handler's early exits\<close>

lemma lower_append: "lower (s @ t) = lower s @ lower t"
  by (simp add: lower_def)

lemma length_lower: "length (lower s) = length s"
  by (simp add: lower_def)

lemma endswith_iff_append: "endswith s suffix \<longleftrightarrow> (\<exists>stem. s = stem @ suffix)"
proof
  assume "endswith s suffix"
  then have "s = take (length s - length suffix) s @ suffix"
    by (metis append_take_drop_id endswith_def)
  then show "\<exists>stem. s = stem @ suffix" ..
next
  assume "\<exists>stem. s = stem @ suffix"
  then show "endswith s suffix" by (auto simp: endswith_def)
qed

lemma endswith_lower_iff:
  "endswith (lower fname) suffix \<longleftrightarrow> (\<exists>stem ext. fname = stem @ ext \<and> lower ext = suffix)"
proof
  assume "endswith (lower fname) suffix"
  then have len: "length suffix \<le> length fname"
    and eq: "drop (length fname - length suffix) (lower fname) = suffix"
    by (simp_all add: endswith_def length_lower)
  let ?k = "length fname - length suffix"
  have "fname = take ?k fname @ drop ?k fname" by simp
  moreover have "lower (drop ?k fname) = suffix"
    using eq by (simp add: lower_def drop_map)
  ultimately show "\<exists>stem ext. fname = stem @ ext \<and> lower ext = suffix" by blast
next
  assume "\<exists>stem ext. fname = stem @ ext \<and> lower ext = suffix"
  then obtain stem ext where "fname = stem @ ext" and "lower ext = suffix" by blast
  then have "lower fname = lower stem @ suffix" by (simp add: lower_append)
  then show "endswith (lower fname) suffix" by (auto simp: endswith_iff_append)
qed

lemma allowed_extension_iff:
  "allowed_extension fname \<longleftrightarrow>
     (\<exists>stem ext. fname = stem @ ext \<and> lower ext \<in> {''.mp3'', ''.wav'', ''.m4a''})"
  unfolding allowed_extension_def endswith_lower_iff by blast

lemma predict_audio_loaded_status:
  assumes "allowed_extension (filename file)"
  shows "status_code (fst (predict_audio env (Some m) file w)) = 200
         \<or> status_code (fst (predict_audio env (Some m) file w)) = 500"
  using assms by (simp add: predict_audio_def status_code_def Let_def split: sum.split)

lemma predict_audio_allowed_not_400:
  assumes "allowed_extension (filename file)"
  shows "status_code (fst (predict_audio env model file w)) \<noteq> 400"
proof (cases model)
  case None
  with assms show ?thesis by (simp add: predict_audio_def status_code_def)
next
  case (Some m)
  with predict_audio_loaded_status [OF assms, of env m w] show ?thesis by auto
qed

lemma predict_audio_rejected:
  assumes "\<not> allowed_extension (filename file)"
  shows "predict_audio env model file w =
           (Inl (HTTPException 400 ''Only audio files (.mp3, .wav, .m4a) are allowed''), w)"
  using assms by (simp add: predict_audio_def)

lemma allowed_song: "allowed_extension ''song.MP3''"
  by code_simp

lemma not_allowed_notes: "\<not> allowed_extension ''notes.txt''"
  by code_simp

text \<open>
  Claim C6. A POST /predict request is answered with status 400 if and only if the
  uploaded filename does not end, ignoring case, with \<open>.mp3\<close>, \<open>.wav\<close> or
  \<open>.m4a\<close>; and a request answered with 400 leaves the world as it was: the body has
  not been read, no temporary file exists, and neither preprocessing nor inference was
  called.
\<close>

theorem predict_audio_400_iff_bad_extension:
  "(status_code (fst (predict_audio env model file w)) = 400
      \<longleftrightarrow> \<not> (\<exists>stem ext. filename file = stem @ ext
                \<and> lower ext \<in> {''.mp3'', ''.wav'', ''.m4a''}))
   \<and> (status_code (fst (predict_audio env model file w)) = 400
      \<longrightarrow> predict_audio env model file w =
            (Inl (HTTPException 400 ''Only audio files (.mp3, .wav, .m4a) are allowed''), w))"
proof (cases "allowed_extension (filename file)")
  case True
  then have "status_code (fst (predict_audio env model file w)) \<noteq> 400"
    by (rule predict_audio_allowed_not_400)
  with True show ?thesis by (simp add: allowed_extension_iff)
next
  case False
  then have "predict_audio env model file w =
      (Inl (HTTPException 400 ''Only audio files (.mp3, .wav, .m4a) are allowed''), w)"
    by (rule predict_audio_rejected)
  with False show ?thesis by (simp add: allowed_extension_iff status_code_def)
qed

theorem predict_audio_400_iff_bad_extension_witness:
  "predict_audio fixture_env (Some fixture_model) \<lparr>filename = ''notes.txt'', body = [1, 2, 3]\<rparr> empty_world =
     (Inl (HTTPException 400 ''Only audio files (.mp3, .wav, .m4a) are allowed''), empty_world)
   \<and> status_code (fst (predict_audio fixture_env None \<lparr>filename = ''song.MP3'', body = [1, 2, 3]\<rparr> empty_world)) \<noteq> 400"
  using predict_audio_400_iff_bad_extension [of fixture_env "Some fixture_model"
      "\<lparr>filename = ''notes.txt'', body = [1, 2, 3]\<rparr>" empty_world]
    predict_audio_400_iff_bad_extension [of fixture_env None
      "\<lparr>filename = ''song.MP3'', body = [1, 2, 3]\<rparr>" empty_world]
    allowed_song not_allowed_notes
  by (simp add: allowed_extension_iff)

text \<open>
  Claim C5. For every POST /predict request with an accepted extension, if no model is
  loaded the handler raises HTTPException 500 with the detail "Model not loaded. Please
  check server configuration.", and the world is unchanged: the check comes before the
  body is read and before any decoding, normalizing or feature extraction.
\<close>

theorem predict_audio_model_not_loaded:
  assumes "allowed_extension (filename file)"
  shows "predict_audio env None file w =
           (Inl (HTTPException 500 ''Model not loaded. Please check server configuration.''), w)"
  using assms by (simp add: predict_audio_def)

theorem predict_audio_model_not_loaded_witness:
  "allowed_extension ''call.wav''
   \<and> predict_audio fixture_env None \<lparr>filename = ''call.wav'', body = [1, 2, 3]\<rparr> empty_world =
       (Inl (HTTPException 500 ''Model not loaded. Please check server configuration.''), empty_world)"
proof -
  have ok: "allowed_extension (filename \<lparr>filename = ''call.wav'', body = [1, 2, 3]\<rparr>)"
    by code_simp
  show ?thesis
    using ok predict_audio_model_not_loaded [OF ok, of fixture_env empty_world] by simp
qed

subsection \<open>Oversized uploads\<close>

text \<open>
  The 413 of line 178 is raised inside the \<^verbatim>\<open>try\<close>, whose \<^verbatim>\<open>except Exception\<close>
  clause catches it and raises a 500 in its place. The only step taken is the reading
  of the body.
\<close>

lemma predict_audio_oversize:
  assumes "allowed_extension (filename file)" and "MAX_FILE_SIZE < length (body file)"
  shows "predict_audio env (Some m) file w =
     (Inl (HTTPException 500 (''Error processing audio file: ''
            @ str_of_exn env (HTTPException 413 ''File too large. Maximum size is 50MB.''))),
      log_event ReadBody w)"
  using assms by (simp add: predict_audio_def predict_try_def Let_def)

text \<open>
  Claim C2, evaluated on the code. A request with filename \<open>a.mp3\<close>, a loaded model
  and a body of \<open>50 * 1024 * 1024 + 1\<close> bytes is answered with status 500, not 413;
  the detail is "Error processing audio file: " followed by \<^verbatim>\<open>str\<close> of the 413
  exception. Nothing but the reading of the body is attempted.
\<close>

theorem predict_audio_oversize_is_500:
  "predict_audio env (Some m) \<lparr>filename = ''a.mp3'', body = replicate 52428801 0\<rparr> w =
     (Inl (HTTPException 500 (''Error processing audio file: ''
            @ str_of_exn env (HTTPException 413 ''File too large. Maximum size is 50MB.''))),
      log_event ReadBody w)
   \<and> status_code (fst (predict_audio env (Some m)
         \<lparr>filename = ''a.mp3'', body = replicate 52428801 0\<rparr> w)) = 500"
proof -
  have "allowed_extension ''a.mp3''"
    by code_simp
  then show ?thesis
    by (simp add: predict_audio_def predict_try_def MAX_FILE_SIZE_def Let_def status_code_def)
qed

section \<open>Inference\<close>

lemma argmax_scan_inv:
  assumes "length pre = i" and "best_i < i" and "pre ! best_i = best"
      and "best = Max (set pre)" and "\<forall>j<best_i. pre ! j < best"
  shows "argmax_scan xs i best_i best < length (pre @ xs)
         \<and> (pre @ xs) ! argmax_scan xs i best_i best = Max (set (pre @ xs))
         \<and> (\<forall>j<argmax_scan xs i best_i best.
               (pre @ xs) ! j < (pre @ xs) ! argmax_scan xs i best_i best)"
  using assms
proof (induction xs arbitrary: pre i best_i best)
  case Nil
  then show ?case by simp
next
  case (Cons x xs)
  have ne: "set pre \<noteq> {}" using Cons.prems by auto
  have mx: "Max (set (pre @ [x])) = max x best"
    using ne Cons.prems(4) by simp
  show ?case
  proof (cases "best < x")
    case True
    have below: "\<forall>j<i. (pre @ [x]) ! j < x"
    proof (intro allI impI)
      fix j assume "j < i"
      then have "pre ! j \<in> set pre" using Cons.prems(1) by simp
      then have "pre ! j \<le> best" using Cons.prems(4) by simp
      with True \<open>j < i\<close> Cons.prems(1) show "(pre @ [x]) ! j < x"
        by (simp add: nth_append)
    qed
    define r where "r = argmax_scan xs (Suc i) i x"
    have "r < length ((pre @ [x]) @ xs)
         \<and> ((pre @ [x]) @ xs) ! r = Max (set ((pre @ [x]) @ xs))
         \<and> (\<forall>j<r. ((pre @ [x]) @ xs) ! j < ((pre @ [x]) @ xs) ! r)"
      unfolding r_def
    proof (rule Cons.IH)
      show "length (pre @ [x]) = Suc i" using Cons.prems(1) by simp
      show "i < Suc i" by simp
      show "(pre @ [x]) ! i = x" using Cons.prems(1) [symmetric] by simp
      show "x = Max (set (pre @ [x]))" using mx True by simp
      show "\<forall>j<i. (pre @ [x]) ! j < x" by (rule below)
    qed
    moreover have "argmax_scan (x # xs) i best_i best = r"
      using True by (simp add: r_def)
    moreover have "(pre @ [x]) @ xs = pre @ x # xs" by simp
    ultimately show ?thesis by auto
  next
    case False
    define r where "r = argmax_scan xs (Suc i) best_i best"
    have "r < length ((pre @ [x]) @ xs)
         \<and> ((pre @ [x]) @ xs) ! r = Max (set ((pre @ [x]) @ xs))
         \<and> (\<forall>j<r. ((pre @ [x]) @ xs) ! j < ((pre @ [x]) @ xs) ! r)"
      unfolding r_def
    proof (rule Cons.IH)
      show "length (pre @ [x]) = Suc i" using Cons.prems(1) by simp
      show "best_i < Suc i" using Cons.prems(2) by simp
      show "(pre @ [x]) ! best_i = best" using Cons.prems(1,2,3) by (simp add: nth_append)
      show "best = Max (set (pre @ [x]))" using mx False by simp
      show "\<forall>j<best_i. (pre @ [x]) ! j < best"
        using Cons.prems(1,2,5) by (simp add: nth_append)
    qed
    moreover have "argmax_scan (x # xs) i best_i best = r"
      using False by (simp add: r_def)
    moreover have "(pre @ [x]) @ xs = pre @ x # xs" by simp
    ultimately show ?thesis by auto
  qed
qed

lemma np_argmax_first_max:
  assumes "a \<noteq> []"
  shows "\<exists>k. np_argmax a = Inr k \<and> k < length a \<and> a ! k = Max (set a)
             \<and> (\<forall>j<k. a ! j < a ! k)"
proof -
  from assms obtain x xs where a: "a = x # xs" by (cases a) auto
  have "argmax_scan xs 1 0 x < length ([x] @ xs)
         \<and> ([x] @ xs) ! argmax_scan xs 1 0 x = Max (set ([x] @ xs))
         \<and> (\<forall>j<argmax_scan xs 1 0 x. ([x] @ xs) ! j < ([x] @ xs) ! argmax_scan xs 1 0 x)"
    by (rule argmax_scan_inv) simp_all
  then show ?thesis by (simp add: a np_argmax_def)
qed

lemma np_max_Max:
  assumes "a \<noteq> []"
  shows "np_max a = Inr (Max (set a))"
proof -
  from assms obtain x xs where a: "a = x # xs" by (cases a) auto
  show ?thesis using Max.set_eq_fold [of x xs] by (simp add: a np_max_def)
qed

text \<open>
  Claim C7. For every feature tensor and every loaded model whose output is one row of
  exactly 10 scores, each in \<open>[0, 1]\<close>, \<open>inference_from_melspec\<close> returns the class
  name at the (first) index of the maximum score, which is an element of the fixed
  10-entry class list, together with a confidence equal to that maximum and hence in
  \<open>[0, 1]\<close>. The resize of the tensor is a library call; the theorem is about the
  runs in which it returns.
\<close>

theorem inference_label_and_confidence:
  assumes resize: "resize_if_needed env mel_spec_db model = Inr resized"
      and pred: "predict model (expand_dims0 resized) = Inr [scores]"
      and len: "length scores = 10"
      and range: "\<forall>s \<in> set scores. 0 \<le> s \<and> s \<le> 1"
  shows "\<exists>k. k < 10 \<and> scores ! k = Max (set scores) \<and> (\<forall>j<k. scores ! j < scores ! k)
           \<and> inference_from_melspec env mel_spec_db model class_names =
               Inr (class_names ! k, Max (set scores))
           \<and> class_names ! k \<in> set class_names
           \<and> 0 \<le> Max (set scores) \<and> Max (set scores) \<le> 1"
proof -
  have ne: "scores \<noteq> []" using len by auto
  from np_argmax_first_max [OF ne] obtain k where
    k: "np_argmax scores = Inr k" "k < length scores" "scores ! k = Max (set scores)"
       "\<forall>j<k. scores ! j < scores ! k"
    by blast
  have k10: "k < 10" using k(2) len by simp
  have names: "length class_names = 10" by (simp add: class_names_def)
  have get: "list_get class_names k = Inr (class_names ! k)"
    using k10 names by (simp add: list_get_def)
  have run: "inference_from_melspec env mel_spec_db model class_names =
               Inr (class_names ! k, Max (set scores))"
    using resize pred k(1) np_max_Max [OF ne] get
    by (simp add: inference_from_melspec_def)
  have mem: "class_names ! k \<in> set class_names"
    using k10 names by simp
  have "Max (set scores) \<in> set scores" using ne by simp
  then have "0 \<le> Max (set scores) \<and> Max (set scores) \<le> 1" using range by blast
  with k10 k(3,4) run mem show ?thesis by blast
qed

theorem inference_label_and_confidence_witness:
  "inference_from_melspec fixture_env \<lparr>shape = [40, 157, 1], elems = []\<rparr> fixture_model class_names
     = Inr (''ducfly'', 7 / 10)"
proof -
  let ?t = "\<lparr>shape = [40, 157, 1], elems = []\<rparr>"
  let ?s = "[1 / 10, 7 / 10, 0, 0, 0, 1 / 10, 0, 0, 1 / 10, 0] :: real list"
  have r: "resize_if_needed fixture_env ?t fixture_model = Inr ?t"
    by (simp add: resize_if_needed_def fixture_env_def fixture_model_def slice_1_3_def)
  have p: "predict fixture_model (expand_dims0 ?t) = Inr [?s]"
    by (simp add: fixture_model_def)
  have l: "length ?s = 10" by simp
  have b: "\<forall>s \<in> set ?s. 0 \<le> s \<and> s \<le> 1" by simp
  have m: "Max (set ?s) = 7 / 10" by simp
  from inference_label_and_confidence [OF r p l b] obtain k where
    k: "k < 10" "?s ! k = Max (set ?s)" "\<forall>j<k. ?s ! j < ?s ! k"
       "inference_from_melspec fixture_env ?t fixture_model class_names =
          Inr (class_names ! k, Max (set ?s))"
    by blast
  have "k = 1"
  proof (rule ccontr)
    assume "k \<noteq> 1"
    with k(1) have "k \<in> {0, 2, 3, 4, 5, 6, 7, 8, 9}" by auto
    with k(2) m show False by auto
  qed
  with k(4) m show ?thesis by (simp add: class_names_def)
qed

section \<open>The temporary file\<close>

lemma files_log_event: "files (log_event ev w) = files w"
  by (simp add: log_event_def)

lemma trace_log_event: "trace (log_event ev w) = trace w @ [ev]"
  by (simp add: log_event_def)

lemma load_and_preprocess_files:
  "files (snd (load_and_preprocess env temp_path w)) = files w"
  by (simp add: load_and_preprocess_def Let_def files_log_event split: option.split sum.split prod.split)

lemma load_and_preprocess_trace:
  "\<exists>evs. trace (snd (load_and_preprocess env temp_path w)) = trace w @ Decode temp_path # evs"
  by (simp add: load_and_preprocess_def Let_def trace_log_event split: option.split sum.split prod.split)

lemma remove_if_exists_gone: "files (remove_if_exists temp_path w) temp_path = None"
  by (simp add: remove_if_exists_def files_log_event)

lemma remove_if_exists_trace:
  "\<exists>evs. trace (remove_if_exists temp_path w) = trace w @ evs"
  by (simp add: remove_if_exists_def trace_log_event)

lemma process_sync_written:
  assumes "tmp_stem env = Inr stem" and "tmp_write env file_content = None"
  shows "process_sync env file_content w =
     (let temp_path = stem @ ''.mp3'';
          w2 = log_event (TempWrite temp_path)
                 ((log_event (TempCreate temp_path) (w\<lparr>files := (files w)(temp_path \<mapsto> [])\<rparr>))
                    \<lparr>files := (files w)(temp_path \<mapsto> file_content)\<rparr>);
          rw = load_and_preprocess env temp_path w2
      in (fst rw, remove_if_exists temp_path (snd rw)))"
  using assms by (simp add: process_sync_def Let_def files_log_event)

lemma process_sync_cleans_up:
  assumes "tmp_stem env = Inr stem" and "tmp_write env file_content = None"
  shows "files (snd (process_sync env file_content w)) (stem @ ''.mp3'') = None"
  using assms by (simp add: process_sync_written Let_def remove_if_exists_gone)

lemma process_sync_no_file_created:
  assumes "tmp_stem env = Inl e"
  shows "process_sync env file_content w = (Inl e, w)"
  using assms by (simp add: process_sync_def)

text \<open>
  Claim C9, evaluated on the code. The \<^verbatim>\<open>try\<close>/\<^verbatim>\<open>finally\<close> of \<^verbatim>\<open>_process_sync\<close>
  removes the temporary file once the content has been written (lemma
  \<open>process_sync_cleans_up\<close>: after a successful return, a decode failure or an
  exception of the preprocessing alike). The write itself stands before the
  \<^verbatim>\<open>try\<close>: when it raises, the function exits with that exception, the file
  created with \<^verbatim>\<open>delete=False\<close> is still on disk, and no removal was attempted.
\<close>

theorem process_sync_write_failure_keeps_file:
  assumes "tmp_stem env = Inr stem" and "tmp_write env file_content = Some e"
  shows "fst (process_sync env file_content w) = Inl e
         \<and> files (snd (process_sync env file_content w)) (stem @ ''.mp3'') = Some []
         \<and> trace (snd (process_sync env file_content w)) =
             trace w @ [TempCreate (stem @ ''.mp3'')]"
  using assms by (simp add: process_sync_def Let_def files_log_event trace_log_event)

theorem process_sync_write_failure_keeps_file_witness:
  "fst (process_sync full_disk_env [1, 2, 3] empty_world) = Inl (OSError ''No space left on device'')
   \<and> files (snd (process_sync full_disk_env [1, 2, 3] empty_world)) ''/tmp/tmpk3x9.mp3'' = Some []
   \<and> trace (snd (process_sync full_disk_env [1, 2, 3] empty_world)) = [TempCreate ''/tmp/tmpk3x9.mp3'']"
proof -
  have s: "tmp_stem full_disk_env = Inr ''/tmp/tmpk3x9''"
    by (simp add: full_disk_env_def fixture_env_def)
  have f: "tmp_write full_disk_env [1, 2, 3] = Some (OSError ''No space left on device'')"
    by (simp add: full_disk_env_def)
  show ?thesis
    using process_sync_write_failure_keeps_file [OF s f, of empty_world]
    by (simp add: empty_world_def)
qed

text \<open>
  Claim C10. The filename argument of \<open>process_audio_file\<close> has no effect: two
  calls that differ only in the filename give the same result and the same world. The
  temporary file is named by the fixed suffix \<open>.mp3\<close> appended to the name the
  operating system picks; when it is created and written, it is that file that is
  written and then handed to the decoder, and the result is the decoder's and the
  preprocessing's on the uploaded bytes.
\<close>

theorem process_audio_file_ignores_filename:
  "process_audio_file env file_content fname w = process_audio_file env file_content fname' w
   \<and> (tmp_stem env = Inr stem \<and> tmp_write env file_content = None \<longrightarrow>
        endswith (stem @ ''.mp3'') ''.mp3''
        \<and> (\<exists>evs. trace (snd (process_audio_file env file_content fname w)) =
              trace w @ TempCreate (stem @ ''.mp3'') # TempWrite (stem @ ''.mp3'')
                # Decode (stem @ ''.mp3'') # evs)
        \<and> fst (process_audio_file env file_content fname w) =
            (case librosa_load env file_content of
               Inl e \<Rightarrow> Inl e
             | Inr (audio_array, original_sampling_rate) \<Rightarrow>
                 preprocess_audio_data env audio_array original_sampling_rate 16000 5))"
proof (intro conjI impI)
  show "process_audio_file env file_content fname w = process_audio_file env file_content fname' w"
    by (simp add: process_audio_file_def)
next
  assume a: "tmp_stem env = Inr stem \<and> tmp_write env file_content = None"
  show "endswith (stem @ ''.mp3'') ''.mp3''"
    by (simp add: endswith_def)
  let ?p = "stem @ ''.mp3''"
  let ?w2 = "log_event (TempWrite ?p)
                 ((log_event (TempCreate ?p) (w\<lparr>files := (files w)(?p \<mapsto> [])\<rparr>))
                    \<lparr>files := (files w)(?p \<mapsto> file_content)\<rparr>)"
  have run: "process_audio_file env file_content fname w =
      (fst (load_and_preprocess env ?p ?w2), remove_if_exists ?p (snd (load_and_preprocess env ?p ?w2)))"
    using a by (simp add: process_audio_file_def process_sync_written Let_def)
  have t2: "trace ?w2 = trace w @ [TempCreate ?p, TempWrite ?p]"
    by (simp add: log_event_def)
  from load_and_preprocess_trace [of env ?p ?w2] obtain evs1 where
    e1: "trace (snd (load_and_preprocess env ?p ?w2)) = trace ?w2 @ Decode ?p # evs1" by blast
  from remove_if_exists_trace [of ?p "snd (load_and_preprocess env ?p ?w2)"] obtain evs2 where
    e2: "trace (remove_if_exists ?p (snd (load_and_preprocess env ?p ?w2))) =
           trace (snd (load_and_preprocess env ?p ?w2)) @ evs2" by blast
  have "trace (snd (process_audio_file env file_content fname w)) =
          trace w @ TempCreate ?p # TempWrite ?p # Decode ?p # (evs1 @ evs2)"
    by (simp add: run e2 e1 t2)
  then show "\<exists>evs. trace (snd (process_audio_file env file_content fname w)) =
              trace w @ TempCreate ?p # TempWrite ?p # Decode ?p # evs" ..
  have f2: "files ?w2 ?p = Some file_content"
    by (simp add: log_event_def)
  show "fst (process_audio_file env file_content fname w) =
            (case librosa_load env file_content of
               Inl e \<Rightarrow> Inl e
             | Inr (audio_array, original_sampling_rate) \<Rightarrow>
                 preprocess_audio_data env audio_array original_sampling_rate 16000 5)"
    using f2 by (simp add: run load_and_preprocess_def Let_def split: sum.split prod.split)
qed

theorem process_audio_file_ignores_filename_witness:
  "process_audio_file fixture_env [1, 2, 3] ''a.wav'' empty_world =
     process_audio_file fixture_env [1, 2, 3] ''b.m4a'' empty_world
   \<and> trace (snd (process_audio_file fixture_env [1, 2, 3] ''a.wav'' empty_world)) =
       [TempCreate ''/tmp/tmpk3x9.mp3'', TempWrite ''/tmp/tmpk3x9.mp3'',
        Decode ''/tmp/tmpk3x9.mp3'', Preprocess, Unlink ''/tmp/tmpk3x9.mp3'']"
proof -
  have h: "tmp_stem fixture_env = Inr ''/tmp/tmpk3x9'' \<and> tmp_write fixture_env [1, 2, 3] = None"
    by (simp add: fixture_env_def)
  have t: "trace (snd (process_audio_file fixture_env [1, 2, 3] ''a.wav'' empty_world)) =
       [TempCreate ''/tmp/tmpk3x9.mp3'', TempWrite ''/tmp/tmpk3x9.mp3'',
        Decode ''/tmp/tmpk3x9.mp3'', Preprocess, Unlink ''/tmp/tmpk3x9.mp3'']"
    by (simp add: process_audio_file_def process_sync_def load_and_preprocess_def
        remove_if_exists_def log_event_def fixture_env_def empty_world_def Let_def)
  show ?thesis
    using process_audio_file_ignores_filename
      [of fixture_env "[1, 2, 3]" "''a.wav''" empty_world "''b.m4a''" "''/tmp/tmpk3x9''"] h t
    by simp
qed

section \<open>The feature tensor\<close>








text \<open>On the fixture: powers 10, 1, 1, 10 become 0, -10, -10, 0 decibels.\<close>

lemma to_melspectrogram_fixture:
  "to_melspectrogram fixture_env [1 / 2, - 1 / 2, 1 / 4] 16000 40 =
     Inr \<lparr>shape = [2, 2, 1], elems = [0, - 10, - 10, 0]\<rparr>"
  by (simp add: to_melspectrogram_def power_to_db_def np_max_def decibel_def amin_default_def
      top_db_default_def new_axis_def astype_float32_def fixture_env_def Let_def)



end
